theory Spec2Isabelle
  imports Complex_Main "HOL-Library.Sublist"
begin

section \<open>Cloud price calculator client (client/src/App.jsx)\<close>

text \<open>
  The React component \<open>App\<close> keeps five pieces of state (\<open>useState\<close>): the form, the
  last comparison payload, a loading flag, an error message and the instance catalog.
  Its handlers are modelled as functions on a record of that state. What the network
  answers is an input of the model: a \<open>fetch\<close> either rejects (network error) or resolves
  with a response whose \<open>ok\<close> flag and body the handler inspects.
\<close>

subsection \<open>Data\<close>

text \<open>JSON numbers; the client only stores, copies and prints them.\<close>

type_synonym number = real

text \<open>One entry of \<open>results\<close> in the \<open>/compare\<close> payload.\<close>

record ProviderCost =
  instance_type :: string
  region :: string
  hours_running :: number
  storage_gb :: number
  compute_cost :: number
  storage_cost :: number
  total_cost :: number

text \<open>The \<open>comparison\<close> part of the payload, as the summary cards read it.\<close>

record ComparisonSummary =
  cheapest_provider :: string
  cost_breakdown :: "(string \<times> number) list"
  max_savings :: number
  percentage_savings :: number

text \<open>
  The payload. A JavaScript object is kept as the list of its entries in the order
  \<open>Object.entries\<close> and \<open>Object.keys\<close> enumerate them, which for the provider
  identifiers (strings that are not array indices) is the order of insertion. The keys
  of an object are pairwise distinct.
\<close>

record ComparisonData =
  results :: "(string \<times> ProviderCost) list"
  comparison :: ComparisonSummary

text \<open>The body of \<open>/instances/{provider}\<close>.\<close>

record ProviderCatalog =
  instance_families :: "(string \<times> string list) list"

text \<open>A form field holds the number of its initial value or the text of an input event.\<close>

datatype field_value = Text string | Number number

text \<open>The component state; \<open>None\<close> is JavaScript's \<open>null\<close>.\<close>

record App =
  formData :: "string \<rightharpoonup> field_value"
  comparisonData :: "ComparisonData option"
  loading :: bool
  error :: "string option"
  instanceTypes :: "string \<rightharpoonup> ProviderCatalog"

definition initial :: App where
  "initial =
     \<lparr> formData = map_of
         [(''aws_instance'', Text ''t3.medium''),
          (''gcp_instance'', Text ''e2-standard-2''),
          (''azure_instance'', Text ''Standard_D2s_v3''),
          (''hours'', Number 24),
          (''storage_gb'', Number 50),
          (''aws_region'', Text ''us-east-1''),
          (''gcp_region'', Text ''us-central1''),
          (''azure_region'', Text ''eastus'')],
       comparisonData = None,
       loading = False,
       error = None,
       instanceTypes = Map.empty \<rparr>"

definition handleInputChange :: "string \<Rightarrow> string \<Rightarrow> App \<Rightarrow> App" where
  "handleInputChange name v s = s\<lparr>formData := (formData s)(name \<mapsto> Text v)\<rparr>"

subsection \<open>What a fetch answers\<close>

text \<open>
  \<open>response.json()\<close> rejects with an error (its \<open>message\<close>) or resolves with the decoded
  value; \<open>fetch\<close> rejects with an error (its \<open>message\<close>) or resolves with a response
  carrying \<open>ok\<close> and the body.
\<close>

datatype 'a body = Unparsable string | Parsed 'a

datatype 'a fetch_result = Rejected string | Response bool "'a body"

subsection \<open>The comparison submit handler\<close>

text \<open>The statements before the \<open>try\<close>: \<open>setLoading(true); setError(null)\<close>.\<close>

definition handleSubmit_begin :: "App \<Rightarrow> App" where
  "handleSubmit_begin s = s\<lparr>loading := True, error := None\<rparr>"

text \<open>
  The \<open>try\<close> block once the fetch has settled: \<open>Inl\<close> is the message of the error
  thrown, \<open>Inr\<close> the value \<open>response.json()\<close> resolved to. The handler does not
  inspect that value: it is a payload or, as \<open>None\<close>, the \<open>null\<close> that a body of
  \<open>null\<close> decodes to.
\<close>

definition try_compare ::
  "ComparisonData option fetch_result \<Rightarrow> string + ComparisonData option" where
  "try_compare r =
     (case r of
        Rejected msg \<Rightarrow> Inl msg
      | Response ok b \<Rightarrow>
          if \<not> ok then Inl ''Failed to fetch comparison data''
          else (case b of Unparsable msg \<Rightarrow> Inl msg | Parsed d \<Rightarrow> Inr d))"

text \<open>
  \<open>try\<close> (ending in \<open>setComparisonData(data)\<close>), \<open>catch\<close> (\<open>setError(err.message)\<close>) and
  \<open>finally\<close> (\<open>setLoading(false)\<close>).
\<close>

definition handleSubmit_settle :: "ComparisonData option fetch_result \<Rightarrow> App \<Rightarrow> App" where
  "handleSubmit_settle r s =
     (case try_compare r of
        Inr d \<Rightarrow> s\<lparr>comparisonData := d\<rparr>
      | Inl msg \<Rightarrow> s\<lparr>error := Some msg\<rparr>)
     \<lparr>loading := False\<rparr>"

definition handleSubmit :: "ComparisonData option fetch_result \<Rightarrow> App \<Rightarrow> App" where
  "handleSubmit r s = handleSubmit_settle r (handleSubmit_begin s)"

text \<open>
  What the render shows: the error banner under \<open>error &&\<close> (an empty string is falsy),
  the results section under \<open>comparisonData &&\<close>, and the submit button with
  \<open>disabled={loading}\<close>.
\<close>

definition showsError :: "App \<Rightarrow> bool" where
  "showsError s = (case error s of None \<Rightarrow> False | Some m \<Rightarrow> m \<noteq> [])"

definition showsResults :: "App \<Rightarrow> bool" where
  "showsResults s = (case comparisonData s of None \<Rightarrow> False | Some d \<Rightarrow> True)"

definition submitDisabled :: "App \<Rightarrow> bool" where
  "submitDisabled s = loading s"

text \<open>A payload and a state holding it, for the concrete runs below.\<close>

definition cost :: "string \<Rightarrow> number \<Rightarrow> number \<Rightarrow> ProviderCost" where
  "cost i c st =
     \<lparr> instance_type = i, region = ''r'', hours_running = 24, storage_gb = 50,
       compute_cost = c, storage_cost = st, total_cost = c + st \<rparr>"

definition sample :: ComparisonData where
  "sample =
     \<lparr> results =
         [(''aws'', cost ''t3.medium'' 40 2),
          (''gcp'', cost ''e2-standard-2'' 34 (3/2)),
          (''azure'', cost ''Standard_D2s_v3'' 48 (9/4))],
       comparison =
         \<lparr> cheapest_provider = ''gcp'',
           cost_breakdown = [(''aws'', 42), (''gcp'', 71/2), (''azure'', 201/4)],
           max_savings = 59/4,
           percentage_savings = 2935/100 \<rparr> \<rparr>"

definition shown :: App where
  "shown = initial\<lparr>comparisonData := Some sample\<rparr>"

subsection \<open>The derivation functions\<close>

text \<open>
  \<open>String.prototype.toUpperCase\<close> on the letters \<open>a\<close> to \<open>z\<close>; a character is a byte
  here and every other byte is left as it is (provider identifiers are ASCII).
\<close>

definition toUpperCase_char :: "char \<Rightarrow> char" where
  "toUpperCase_char c =
     (if 97 \<le> (of_char c :: nat) \<and> (of_char c :: nat) \<le> 122
      then char_of ((of_char c :: nat) - 32) else c)"

definition toUpperCase :: "string \<Rightarrow> string" where
  "toUpperCase str = map toUpperCase_char str"

text \<open>
  A record of the bar chart. The source's field \<open>instance\<close> is named \<open>instance_name\<close>
  here and the pie record's \<open>value\<close> is named \<open>pie_value\<close>, both being reserved words.
\<close>

record ChartDatum =
  provider :: string
  compute :: number
  storage :: number
  total :: number
  instance_name :: string

text \<open>A record of the pie chart; a \<open>color\<close> of \<open>None\<close> is \<open>undefined\<close>.\<close>

record PieDatum =
  name :: string
  pie_value :: number
  color :: "string option"

definition COLORS :: "string list" where
  "COLORS = [''#3B82F6'', ''#10B981'', ''#F59E0B'', ''#EF4444'']"

text \<open>\<open>Array.prototype.indexOf\<close>: the first index holding the element, or \<open>-1\<close>.\<close>

fun indexOf :: "'a list \<Rightarrow> 'a \<Rightarrow> int" where
  "indexOf [] x = -1"
| "indexOf (y # ys) x =
     (if y = x then 0 else if indexOf ys x < 0 then -1 else indexOf ys x + 1)"

text \<open>Reading an array at an index: \<open>undefined\<close> outside its bounds.\<close>

definition at_index :: "'a list \<Rightarrow> int \<Rightarrow> 'a option" where
  "at_index xs i = (if 0 \<le> i \<and> i < int (length xs) then Some (xs ! nat i) else None)"

definition formatChartData :: "App \<Rightarrow> ChartDatum list" where
  "formatChartData s =
     (case comparisonData s of
        None \<Rightarrow> []
      | Some d \<Rightarrow>
          map (\<lambda>(p, data).
                \<lparr> provider = toUpperCase p,
                  compute = compute_cost data,
                  storage = storage_cost data,
                  total = total_cost data,
                  instance_name = instance_type data \<rparr>)
              (results d))"

definition formatPieData :: "App \<Rightarrow> PieDatum list" where
  "formatPieData s =
     (case comparisonData s of
        None \<Rightarrow> []
      | Some d \<Rightarrow>
          map (\<lambda>(p, data).
                \<lparr> name = toUpperCase p,
                  pie_value = total_cost data,
                  color = at_index COLORS (indexOf (map fst (results d)) p) \<rparr>)
              (results d))"

subsection \<open>The winner highlight\<close>

text \<open>
  The detailed view marks a card with \<open>provider === comparison.cheapest_provider\<close>; the
  summary card prints \<open>comparison.cheapest_provider.toUpperCase()\<close>.
\<close>

definition isWinner :: "ComparisonData \<Rightarrow> string \<Rightarrow> bool" where
  "isWinner d p = (p = cheapest_provider (comparison d))"

definition winnerCards :: "ComparisonData \<Rightarrow> string list" where
  "winnerCards d = map fst (filter (\<lambda>(p, data). isWinner d p) (results d))"

definition cheapestLabel :: "ComparisonData \<Rightarrow> string" where
  "cheapestLabel d = toUpperCase (cheapest_provider (comparison d))"

text \<open>
  Modelled from the spec: the pricing service that fills \<open>comparison.cheapest_provider\<close>
  is not among the client's sources. The specification defines it as the provider
  that minimises \<open>total_cost\<close> across the result map, ties broken by first-encountered
  order: a scan that replaces the best entry so far only by a strictly cheaper one.
\<close>

fun cheapest_from :: "string \<times> ProviderCost \<Rightarrow> (string \<times> ProviderCost) list \<Rightarrow> string" where
  "cheapest_from best [] = fst best"
| "cheapest_from best (e # es) =
     cheapest_from (if total_cost (snd e) < total_cost (snd best) then e else best) es"

definition cheapest_of :: "(string \<times> ProviderCost) list \<Rightarrow> string option" where
  "cheapest_of rs = (case rs of [] \<Rightarrow> None | e # es \<Rightarrow> Some (cheapest_from e es))"

subsection \<open>The catalog loader\<close>

text \<open>
  The effects of the loader in the order it performs them: calling \<open>fetch\<close> for a
  provider, the awaited fetch settling, the one call of \<open>setInstanceTypes\<close>, and the
  \<open>console.error\<close> of the \<open>catch\<close>.
\<close>

datatype effect = Fetch string | Settled string | SetInstanceTypes | ConsoleError string

definition providers :: "string list" where
  "providers = [''aws'', ''gcp'', ''azure'']"

text \<open>
  The \<open>for\<close> loop with its two \<open>await\<close>s: each provider is fetched after the previous
  one has been dealt with; a rejected fetch or an undecodable body throws out of the
  loop (\<open>Inl\<close>), a response that is not \<open>ok\<close> is skipped.
\<close>

fun fetch_each ::
  "(string \<Rightarrow> ProviderCatalog fetch_result) \<Rightarrow> string list \<Rightarrow> (string \<rightharpoonup> ProviderCatalog)
     \<Rightarrow> (string + (string \<rightharpoonup> ProviderCatalog)) \<times> effect list" where
  "fetch_each net [] types = (Inr types, [])"
| "fetch_each net (p # ps) types =
     apsnd (\<lambda>tr. Fetch p # Settled p # tr)
       (case net p of
          Rejected msg \<Rightarrow> (Inl msg, [])
        | Response ok b \<Rightarrow>
            if ok then
              (case b of
                 Unparsable msg \<Rightarrow> (Inl msg, [])
               | Parsed c \<Rightarrow> fetch_each net ps (types(p \<mapsto> c)))
            else fetch_each net ps types)"

definition fetchInstanceTypes ::
  "(string \<Rightarrow> ProviderCatalog fetch_result) \<Rightarrow> App \<Rightarrow> App \<times> effect list" where
  "fetchInstanceTypes net s =
     (case fetch_each net providers Map.empty of
        (Inr types, tr) \<Rightarrow> (s\<lparr>instanceTypes := types\<rparr>, tr @ [SetInstanceTypes])
      | (Inl msg, tr) \<Rightarrow> (s, tr @ [ConsoleError msg]))"

text \<open>Whether a retrieval throws, and the catalog it delivers when it does not.\<close>

definition raises :: "'a fetch_result \<Rightarrow> bool" where
  "raises r =
     (case r of
        Rejected msg \<Rightarrow> True
      | Response ok b \<Rightarrow> ok \<and> (case b of Unparsable msg \<Rightarrow> True | Parsed c \<Rightarrow> False))"

definition delivered :: "'a fetch_result \<Rightarrow> 'a option" where
  "delivered r =
     (case r of
        Rejected msg \<Rightarrow> None
      | Response ok b \<Rightarrow>
          if ok then (case b of Unparsable msg \<Rightarrow> None | Parsed c \<Rightarrow> Some c) else None)"

text \<open>One retrieval after the other, each settled before the next is issued.\<close>

definition one_by_one :: "effect list" where
  "one_by_one = concat (map (\<lambda>p. [Fetch p, Settled p]) providers)"

text \<open>\<open>x\<close> occurs in the trace and \<open>y\<close> occurs after its first occurrence.\<close>

definition precedes :: "effect \<Rightarrow> effect \<Rightarrow> effect list \<Rightarrow> bool" where
  "precedes x y tr = (y \<in> set (drop 1 (dropWhile (\<lambda>e. e \<noteq> x) tr)))"

subsection \<open>The page as a machine\<close>

text \<open>
  The page between events, with the number of \<open>/compare\<close> fetches that have been issued
  and have not settled. Activating the submit control runs the handler up to its
  \<open>await\<close> unless the control is disabled; a settling fetch runs the rest of the handler.
\<close>

record Page =
  app :: App
  in_flight :: nat

datatype ui_event =
  Submit | Settle "ComparisonData option fetch_result" | InputChange string string

fun step :: "Page \<Rightarrow> ui_event \<Rightarrow> Page" where
  "step pg Submit =
     (if submitDisabled (app pg) then pg
      else pg\<lparr>app := handleSubmit_begin (app pg), in_flight := in_flight pg + 1\<rparr>)"
| "step pg (Settle r) =
     (if in_flight pg = 0 then pg
      else pg\<lparr>app := handleSubmit_settle r (app pg), in_flight := in_flight pg - 1\<rparr>)"
| "step pg (InputChange n v) = pg\<lparr>app := handleInputChange n v (app pg)\<rparr>"

definition run :: "ui_event list \<Rightarrow> Page" where
  "run es = foldl step \<lparr>app = initial, in_flight = 0\<rparr> es"

text \<open>
  The invariant of the page: at most one fetch is outstanding, and the loading flag is
  set exactly while one is.
\<close>

definition calm :: "Page \<Rightarrow> bool" where
  "calm pg = (in_flight pg \<le> 1 \<and> loading (app pg) = (in_flight pg = 1))"

subsection \<open>Three networks for the concrete runs\<close>

text \<open>
  Every catalog is served (\<open>up\<close>); the connection to the GCP catalog fails (\<open>down\<close>);
  the GCP catalog answers with status 500 (\<open>refused\<close>).
\<close>

definition up :: "string \<Rightarrow> ProviderCatalog fetch_result" where
  "up p = Response True (Parsed \<lparr>instance_families = [(''general'', [p])]\<rparr>)"

definition down :: "string \<Rightarrow> ProviderCatalog fetch_result" where
  "down p =
     (if p = ''gcp'' then Rejected ''Failed to fetch''
      else Response True (Parsed \<lparr>instance_families = [(''general'', [p])]\<rparr>))"

definition refused :: "string \<Rightarrow> ProviderCatalog fetch_result" where
  "refused p =
     (if p = ''gcp'' then Response False (Unparsable ''Internal Server Error'')
      else Response True (Parsed \<lparr>instance_families = [(''general'', [p])]\<rparr>))"

section \<open>The submit handler\<close>



text \<open>
  A submit answered with a non-success status (here 503) while a result is stored:
  the error is set and the stored result is still there, still rendered.
\<close>

theorem failed_submit_keeps_result:
  "error (handleSubmit (Response False (Unparsable ''Service Unavailable'')) shown)
     = Some ''Failed to fetch comparison data''
   \<and> comparisonData (handleSubmit (Response False (Unparsable ''Service Unavailable'')) shown)
     = Some sample
   \<and> showsResults (handleSubmit (Response False (Unparsable ''Service Unavailable'')) shown)"
  by (simp add: handleSubmit_def handleSubmit_settle_def handleSubmit_begin_def
        try_compare_def showsResults_def shown_def)

text \<open>
  C1, as the code has it. A submit whose fetch resolves with a non-success status
  ends with the error \<open>Failed to fetch comparison data\<close> shown and the loading flag
  false; the stored comparison payload is left as it was before the submit, so a
  result stored earlier stays stored and rendered.
\<close>

theorem handleSubmit_not_ok:
  "error (handleSubmit (Response False b) s) = Some ''Failed to fetch comparison data''
   \<and> loading (handleSubmit (Response False b) s) = False
   \<and> comparisonData (handleSubmit (Response False b) s) = comparisonData s
   \<and> showsError (handleSubmit (Response False b) s)
   \<and> showsResults (handleSubmit (Response False b) s) = showsResults s"
  by (simp add: handleSubmit_def handleSubmit_settle_def handleSubmit_begin_def
        try_compare_def showsError_def showsResults_def)

text \<open>
  A submit issued while a result is stored: the page is pending and the stored result
  is still there, still rendered.
\<close>

theorem resubmit_keeps_result:
  "loading (handleSubmit_begin shown)
   \<and> comparisonData (handleSubmit_begin shown) = Some sample
   \<and> showsResults (handleSubmit_begin shown)"
  by (simp add: handleSubmit_begin_def showsResults_def shown_def)

text \<open>
  C5, as the code has it. A submit sets the loading flag (which disables the submit
  control) and clears the previous error before the fetch completes; the stored
  comparison payload is left as it was, so a result of an earlier submit stays
  rendered while the new fetch is pending.
\<close>

theorem handleSubmit_begin_pending:
  "loading (handleSubmit_begin s)
   \<and> submitDisabled (handleSubmit_begin s)
   \<and> error (handleSubmit_begin s) = None
   \<and> showsError (handleSubmit_begin s) = False
   \<and> comparisonData (handleSubmit_begin s) = comparisonData s
   \<and> showsResults (handleSubmit_begin s) = showsResults s"
  by (simp add: handleSubmit_begin_def showsError_def showsResults_def submitDisabled_def)

section \<open>The derivation functions\<close>

text \<open>
  C6. With a payload stored, the chart series has one record per entry of the result
  map, in the order of the entries; the records carry, entry by entry, the upper-cased
  provider key, the compute cost, the storage cost, the total cost and the instance
  type. A result of three providers gives three records.
\<close>

theorem formatChartData_series:
  assumes "comparisonData s = Some d"
  shows "length (formatChartData s) = length (results d)
    \<and> map provider (formatChartData s) = map (\<lambda>e. toUpperCase (fst e)) (results d)
    \<and> map compute (formatChartData s) = map (\<lambda>e. compute_cost (snd e)) (results d)
    \<and> map storage (formatChartData s) = map (\<lambda>e. storage_cost (snd e)) (results d)
    \<and> map total (formatChartData s) = map (\<lambda>e. total_cost (snd e)) (results d)
    \<and> map instance_name (formatChartData s) = map (\<lambda>e. instance_type (snd e)) (results d)"
  using assms by (simp add: formatChartData_def case_prod_beta comp_def)

theorem formatChartData_series_witness:
  "comparisonData shown = Some sample
   \<and> length (formatChartData shown) = 3
   \<and> map provider (formatChartData shown) = [''AWS'', ''GCP'', ''AZURE'']
   \<and> map total (formatChartData shown) = [42, 71/2, 201/4]"
proof -
  have h: "comparisonData shown = Some sample"
    by (simp add: shown_def)
  have u: "map (\<lambda>e. toUpperCase (fst e)) (results sample) = [''AWS'', ''GCP'', ''AZURE'']"
    by code_simp
  have t: "map (\<lambda>e. total_cost (snd e)) (results sample) = [42, 71/2, 201/4]"
    by code_simp
  have l: "length (results sample) = 3"
    by (simp add: sample_def)
  show ?thesis
    using h formatChartData_series [OF h] u t l by simp
qed

text \<open>In an array without repetition, \<open>indexOf\<close> of the element at a position is the position.\<close>

lemma indexOf_distinct: "distinct xs \<Longrightarrow> i < length xs \<Longrightarrow> indexOf xs (xs ! i) = int i"
proof (induction xs arbitrary: i)
  case Nil
  then show ?case by simp
next
  case (Cons y ys)
  show ?case
  proof (cases i)
    case 0
    then show ?thesis by simp
  next
    case (Suc k)
    with Cons.prems have k: "k < length ys" and d: "distinct ys" and ny: "ys ! k \<noteq> y"
      by auto
    from Cons.IH [OF d k] ny Suc show ?thesis by simp
  qed
qed

text \<open>
  C7. With a payload stored (the keys of its result map distinct, as the keys of an
  object are), the share series has one record per entry, in the order of the entries:
  the upper-cased provider key, the provider's total cost, and the colour the fixed
  palette \<open>COLORS\<close> holds at the provider's position among the keys (\<open>undefined\<close> from
  the fifth position on, the palette having four colours). The colours depend on the
  positions only, so they are the same on every call.
\<close>

theorem formatPieData_series:
  assumes "comparisonData s = Some d" and "distinct (map fst (results d))"
  shows "formatPieData s =
     map (\<lambda>i. \<lparr> name = toUpperCase (fst (results d ! i)),
                pie_value = total_cost (snd (results d ! i)),
                color = (if i < 4 then Some (COLORS ! i) else None) \<rparr>)
         [0 ..< length (results d)]"
proof (rule nth_equalityI)
  show "length (formatPieData s) =
      length (map (\<lambda>i. \<lparr> name = toUpperCase (fst (results d ! i)),
                pie_value = total_cost (snd (results d ! i)),
                color = (if i < 4 then Some (COLORS ! i) else None) \<rparr>)
         [0 ..< length (results d)])"
    using assms(1) by (simp add: formatPieData_def)
next
  fix i assume "i < length (formatPieData s)"
  then have i: "i < length (results d)"
    using assms(1) by (simp add: formatPieData_def)
  then have "indexOf (map fst (results d)) (map fst (results d) ! i) = int i"
    using indexOf_distinct [OF assms(2), of i] by simp
  then have ix: "indexOf (map fst (results d)) (fst (results d ! i)) = int i"
    using i by simp
  have len: "length COLORS = 4"
    by (simp add: COLORS_def)
  show "formatPieData s ! i =
      map (\<lambda>i. \<lparr> name = toUpperCase (fst (results d ! i)),
                pie_value = total_cost (snd (results d ! i)),
                color = (if i < 4 then Some (COLORS ! i) else None) \<rparr>)
         [0 ..< length (results d)] ! i"
    using assms(1) i ix len by (simp add: formatPieData_def case_prod_beta at_index_def)
qed

theorem formatPieData_series_witness:
  "comparisonData shown = Some sample \<and> distinct (map fst (results sample))
   \<and> formatPieData shown =
       [\<lparr>name = ''AWS'', pie_value = 42, color = Some ''#3B82F6''\<rparr>,
        \<lparr>name = ''GCP'', pie_value = 71 / 2, color = Some ''#10B981''\<rparr>,
        \<lparr>name = ''AZURE'', pie_value = 201 / 4, color = Some ''#F59E0B''\<rparr>]"
proof -
  have h: "comparisonData shown = Some sample"
    by (simp add: shown_def)
  have d: "distinct (map fst (results sample))"
    by (simp add: sample_def)
  have e: "map (\<lambda>i. \<lparr> name = toUpperCase (fst (results sample ! i)),
                pie_value = total_cost (snd (results sample ! i)),
                color = (if i < 4 then Some (COLORS ! i) else None) \<rparr>)
         [0 ..< length (results sample)] =
       [\<lparr>name = ''AWS'', pie_value = 42, color = Some ''#3B82F6''\<rparr>,
        \<lparr>name = ''GCP'', pie_value = 71 / 2, color = Some ''#10B981''\<rparr>,
        \<lparr>name = ''AZURE'', pie_value = 201 / 4, color = Some ''#F59E0B''\<rparr>]"
    by code_simp
  show ?thesis
    using h d formatPieData_series [OF h d] e by simp
qed

text \<open>
  C9. The chart series and the share series are functions of the stored payload alone:
  two calls made with the same payload stored give the same two series, whatever the
  rest of the state (form, loading flag, error, catalog) is at each call. The two
  functions return their series and nothing else; they write no state.
\<close>

theorem derivation_of_payload_only:
  assumes "comparisonData s = comparisonData s'"
  shows "formatChartData s = formatChartData s' \<and> formatPieData s = formatPieData s'"
  using assms by (simp add: formatChartData_def formatPieData_def)

theorem derivation_of_payload_only_witness:
  "comparisonData shown
     = comparisonData (handleSubmit_begin (handleInputChange ''hours'' ''48'' shown))
   \<and> formatChartData shown
     = formatChartData (handleSubmit_begin (handleInputChange ''hours'' ''48'' shown))
   \<and> formatPieData shown
     = formatPieData (handleSubmit_begin (handleInputChange ''hours'' ''48'' shown))"
proof -
  have h: "comparisonData shown
      = comparisonData (handleSubmit_begin (handleInputChange ''hours'' ''48'' shown))"
    by (simp add: handleSubmit_begin_def handleInputChange_def)
  show ?thesis
    using h derivation_of_payload_only [OF h] by simp
qed

section \<open>The winner highlight\<close>

text \<open>
  The scan returns the key of the first entry of minimal total cost: every entry before
  it costs strictly more, every entry after it costs at least as much.
\<close>

lemma cheapest_from_first_min:
  "\<exists>pre e post. b # es = pre @ e # post \<and> cheapest_from b es = fst e
     \<and> (\<forall>x\<in>set pre. total_cost (snd e) < total_cost (snd x))
     \<and> (\<forall>x\<in>set post. total_cost (snd e) \<le> total_cost (snd x))"
proof (induction es arbitrary: b)
  case Nil
  show ?case
    by (intro exI [of _ "[]"] exI [of _ b]) simp
next
  case (Cons a es)
  show ?case
  proof (cases "total_cost (snd a) < total_cost (snd b)")
    case True
    from Cons.IH [of a] obtain pre e post where
      sp: "a # es = pre @ e # post" and ch: "cheapest_from a es = fst e"
      and lt: "\<forall>x\<in>set pre. total_cost (snd e) < total_cost (snd x)"
      and le: "\<forall>x\<in>set post. total_cost (snd e) \<le> total_cost (snd x)"
      by blast
    have "a \<in> set (pre @ e # post)" using sp by (metis list.set_intros(1))
    then have "total_cost (snd e) \<le> total_cost (snd a)"
      using lt le by auto
    with True have "total_cost (snd e) < total_cost (snd b)" by simp
    with lt have lt': "\<forall>x\<in>set (b # pre). total_cost (snd e) < total_cost (snd x)"
      by simp
    have "b # a # es = (b # pre) @ e # post" using sp by simp
    moreover have "cheapest_from b (a # es) = fst e" using True ch by simp
    ultimately show ?thesis using lt' le by blast
  next
    case False
    from Cons.IH [of b] obtain pre e post where
      sp: "b # es = pre @ e # post" and ch: "cheapest_from b es = fst e"
      and lt: "\<forall>x\<in>set pre. total_cost (snd e) < total_cost (snd x)"
      and le: "\<forall>x\<in>set post. total_cost (snd e) \<le> total_cost (snd x)"
      by blast
    have ch': "cheapest_from b (a # es) = fst e" using False ch by simp
    show ?thesis
    proof (cases pre)
      case Nil
      with sp have eb: "e = b" and post: "post = es" by simp_all
      have "b # a # es = [] @ e # (a # es)" using eb by simp
      moreover have "\<forall>x\<in>set (a # es). total_cost (snd e) \<le> total_cost (snd x)"
        using le False eb post by auto
      ultimately show ?thesis using ch' by (metis empty_iff list.set(1))
    next
      case (Cons p pre')
      with sp have pb: "p = b" and es: "es = pre' @ e # post" by simp_all
      have "total_cost (snd e) < total_cost (snd b)" using lt Cons pb by simp
      with False have "total_cost (snd e) < total_cost (snd a)" by simp
      with lt Cons pb
      have lt': "\<forall>x\<in>set (b # a # pre'). total_cost (snd e) < total_cost (snd x)"
        by simp
      have "b # a # es = (b # a # pre') @ e # post" using es by simp
      then show ?thesis using ch' lt' le by blast
    qed
  qed
qed

text \<open>Among entries with distinct keys, exactly one has a given entry's key.\<close>

lemma filter_key_distinct:
  assumes "distinct (map fst (pre @ e # post))"
  shows "filter (\<lambda>x. fst x = fst e) (pre @ e # post) = [e]"
proof -
  have "\<forall>x\<in>set pre. fst x \<noteq> fst e" using assms by (auto simp: image_iff)
  then have a: "filter (\<lambda>x. fst x = fst e) pre = []" by (simp add: filter_empty_conv)
  have "\<forall>x\<in>set post. fst x \<noteq> fst e" using assms by (auto simp: image_iff)
  then have b: "filter (\<lambda>x. fst x = fst e) post = []" by (simp add: filter_empty_conv)
  show ?thesis using a b by simp
qed

text \<open>
  C2. For a payload whose result map has distinct keys and whose summary names the
  provider the service computes (the first provider of minimal total cost), the
  provider the client highlights is that provider: the result map splits around one
  entry whose key is \<open>cheapest_provider\<close>, every entry before it costs strictly more
  and every entry after it at least as much; the detailed view marks exactly that
  entry's card and the summary card prints its upper-cased key.
\<close>

theorem winner_is_cheapest:
  assumes "distinct (map fst (results d))"
    and "cheapest_of (results d) = Some (cheapest_provider (comparison d))"
  shows "\<exists>pre e post. results d = pre @ e # post
     \<and> fst e = cheapest_provider (comparison d)
     \<and> (\<forall>x\<in>set pre. total_cost (snd e) < total_cost (snd x))
     \<and> (\<forall>x\<in>set post. total_cost (snd e) \<le> total_cost (snd x))
     \<and> winnerCards d = [fst e]
     \<and> cheapestLabel d = toUpperCase (fst e)"
proof -
  from assms(2) obtain b es where r: "results d = b # es"
    and c: "cheapest_from b es = cheapest_provider (comparison d)"
    by (auto simp: cheapest_of_def split: list.splits)
  from cheapest_from_first_min [of b es] obtain pre e post where
    sp: "b # es = pre @ e # post" and ch: "cheapest_from b es = fst e"
    and lt: "\<forall>x\<in>set pre. total_cost (snd e) < total_cost (snd x)"
    and le: "\<forall>x\<in>set post. total_cost (snd e) \<le> total_cost (snd x)"
    by blast
  have rs: "results d = pre @ e # post" using r sp by simp
  have k: "fst e = cheapest_provider (comparison d)" using c ch by simp
  have dd: "distinct (map fst (pre @ e # post))"
    using assms(1) unfolding rs .
  have f: "filter (\<lambda>x. fst x = fst e) (results d) = [e]"
    unfolding rs by (rule filter_key_distinct [OF dd])
  have "winnerCards d = map fst (filter (\<lambda>x. fst x = fst e) (results d))"
    by (simp add: winnerCards_def isWinner_def case_prod_unfold k)
  then have w: "winnerCards d = [fst e]"
    by (simp only: f list.map)
  have l: "cheapestLabel d = toUpperCase (fst e)" using k by (simp add: cheapestLabel_def)
  show ?thesis using rs k lt le w l by blast
qed

theorem winner_is_cheapest_witness:
  "distinct (map fst (results sample))
   \<and> cheapest_of (results sample) = Some (cheapest_provider (comparison sample))
   \<and> winnerCards sample = [''gcp''] \<and> cheapestLabel sample = ''GCP''"
proof -
  have d: "distinct (map fst (results sample))" by (simp add: sample_def)
  have c: "cheapest_of (results sample) = Some (cheapest_provider (comparison sample))"
    by code_simp
  have k: "cheapest_provider (comparison sample) = ''gcp''" by (simp add: sample_def)
  have u: "toUpperCase ''gcp'' = ''GCP''" by code_simp
  from winner_is_cheapest [OF d c] k u
  have "winnerCards sample = [''gcp''] \<and> cheapestLabel sample = ''GCP''"
    by auto
  with d c show ?thesis by simp
qed

section \<open>The catalog loader\<close>

text \<open>
  The connection to the GCP catalog fails: the loader stops there. The AWS catalog,
  fetched and decoded, is not published, and the Azure catalog is never requested.
\<close>

theorem network_error_blocks_others:
  "instanceTypes (fst (fetchInstanceTypes down initial)) ''aws'' = None
   \<and> instanceTypes (fst (fetchInstanceTypes down initial)) ''azure'' = None
   \<and> snd (fetchInstanceTypes down initial) =
       [Fetch ''aws'', Settled ''aws'', Fetch ''gcp'', Settled ''gcp'',
        ConsoleError ''Failed to fetch'']"
  by (simp add: fetchInstanceTypes_def providers_def down_def initial_def)

text \<open>
  C3, as the code has it. In a run of the loader in which no retrieval throws (each
  resolves, with a decodable body when its status is a success), a provider whose
  retrieval resolves with a non-success status is left absent from the catalog, and
  every other provider's catalog is fetched and published: the published catalog holds
  exactly the decoded bodies of the successful responses, and all three retrievals are
  made before the one publication.
\<close>

theorem status_failure_skips_provider:
  assumes "\<forall>p\<in>set providers. \<not> raises (net p)"
  shows "instanceTypes (fst (fetchInstanceTypes net s))
           = (\<lambda>p. if p \<in> set providers then delivered (net p) else None)
     \<and> snd (fetchInstanceTypes net s) = one_by_one @ [SetInstanceTypes]"
proof -
  have a: "\<not> raises (net ''aws'')" and g: "\<not> raises (net ''gcp'')"
    and z: "\<not> raises (net ''azure'')"
    using assms by (simp_all add: providers_def)
  show ?thesis
    using a g z
    by (auto simp: fetchInstanceTypes_def providers_def raises_def delivered_def
          one_by_one_def fun_eq_iff split: fetch_result.splits body.splits if_splits)
qed

theorem status_failure_skips_provider_witness:
  "\<not> raises (refused ''aws'') \<and> \<not> raises (refused ''gcp'') \<and> \<not> raises (refused ''azure'')
   \<and> instanceTypes (fst (fetchInstanceTypes refused initial)) ''gcp'' = None
   \<and> instanceTypes (fst (fetchInstanceTypes refused initial)) ''aws''
       = Some \<lparr>instance_families = [(''general'', [''aws''])]\<rparr>
   \<and> instanceTypes (fst (fetchInstanceTypes refused initial)) ''azure''
       = Some \<lparr>instance_families = [(''general'', [''azure''])]\<rparr>"
proof -
  have h: "\<forall>p\<in>set providers. \<not> raises (refused p)"
    by (simp add: providers_def raises_def refused_def)
  from status_failure_skips_provider [OF h, of initial]
  have e: "instanceTypes (fst (fetchInstanceTypes refused initial))
           = (\<lambda>p. if p \<in> set providers then delivered (refused p) else None)"
    by simp
  have n: "\<not> raises (refused ''aws'') \<and> \<not> raises (refused ''gcp'')
      \<and> \<not> raises (refused ''azure'')"
    using h by (simp add: providers_def)
  show ?thesis
    using n by (simp add: e providers_def delivered_def refused_def)
qed

text \<open>
  With every catalog served, the GCP retrieval is issued after the AWS retrieval has
  settled, and the Azure retrieval after the GCP one has settled.
\<close>

theorem retrievals_wait:
  "snd (fetchInstanceTypes up initial) =
     [Fetch ''aws'', Settled ''aws'', Fetch ''gcp'', Settled ''gcp'',
      Fetch ''azure'', Settled ''azure'', SetInstanceTypes]
   \<and> precedes (Settled ''aws'') (Fetch ''gcp'') (snd (fetchInstanceTypes up initial))
   \<and> precedes (Settled ''gcp'') (Fetch ''azure'') (snd (fetchInstanceTypes up initial))"
  by (simp add: fetchInstanceTypes_def providers_def up_def precedes_def)

text \<open>
  C4, as the code has it. The retrievals are made one after the other in the order
  aws, gcp, azure, each issued only once the previous one has settled: whatever the
  network answers, the effects before the last one are an initial part of that
  sequence. The catalog is published by one update, which is then the last effect and
  comes after all three retrievals have settled; it happens exactly when no retrieval
  has thrown.
\<close>

theorem fetchInstanceTypes_one_by_one:
  "prefix (butlast (snd (fetchInstanceTypes net s))) one_by_one
   \<and> (SetInstanceTypes \<in> set (snd (fetchInstanceTypes net s)))
       = (snd (fetchInstanceTypes net s) = one_by_one @ [SetInstanceTypes])
   \<and> (SetInstanceTypes \<in> set (snd (fetchInstanceTypes net s)))
       = list_all (\<lambda>p. \<not> raises (net p)) providers"
  by (cases "net ''aws''"; cases "net ''gcp''"; cases "net ''azure''")
     (auto simp: fetchInstanceTypes_def providers_def raises_def one_by_one_def
        split: body.splits)

section \<open>The page as a machine\<close>

lemma calm_initial: "calm \<lparr>app = initial, in_flight = 0\<rparr>"
  by (simp add: calm_def initial_def)

lemma calm_step: "calm pg \<Longrightarrow> calm (step pg e)"
  by (cases e)
     (auto simp: calm_def submitDisabled_def handleSubmit_begin_def handleSubmit_settle_def
        handleInputChange_def split: sum.splits)

lemma calm_run: "calm (run es)"
proof (induction es rule: rev_induct)
  case Nil
  show ?case using calm_initial by (simp add: run_def)
next
  case (snoc e es)
  then show ?case using calm_step [of "run es" e] by (simp add: run_def)
qed

text \<open>
  C8. After any sequence of events on a freshly loaded page, at most one comparison
  fetch is outstanding, and the submit control is disabled exactly while one is. A
  submit during that time changes nothing, so no second fetch is issued and no second
  pending state is entered before the outstanding fetch settles; a submit at any other
  time leaves exactly one fetch outstanding.
\<close>

theorem one_fetch_in_flight:
  "in_flight (run es) \<le> 1
   \<and> loading (app (run es)) = (in_flight (run es) = 1)
   \<and> submitDisabled (app (run es)) = (in_flight (run es) = 1)
   \<and> (if submitDisabled (app (run es)) then run (es @ [Submit]) = run es
       else in_flight (run (es @ [Submit])) = 1)"
  using calm_run [of es] by (auto simp: calm_def submitDisabled_def run_def)

end
